theory Spec2Isabelle
  imports Main "HOL-Library.Log_Nat"
begin

section \<open>Python floats\<close>

text \<open>
  The grades of \<^verbatim>\<open>studien-dashboard.py\<close> are Python floats (IEEE 754 binary64).
  A float is carried here as the rational number it denotes; every arithmetic operation
  computes the exact result and rounds it to the nearest number with a 53 bit
  significand, ties to even, as the hardware does. Comparison and equality of finite
  floats are those of the numbers they denote. The exponent is unbounded here: overflow,
  subnormal numbers, infinities and NaN are outside the model (the grades and credit sums
  of the program are far from both ends of the range).
\<close>

type_synonym float = rat

definition round_half_even :: "rat \<Rightarrow> int" where
  "round_half_even q =
     (let f = \<lfloor>q\<rfloor>; d = q - of_int f
      in if d < 1 / 2 then f
         else if 1 / 2 < d then f + 1
         else if even f then f else f + 1)"

definition pow2 :: "int \<Rightarrow> rat" where
  "pow2 e = (if 0 \<le> e then 2 ^ nat e else 1 / 2 ^ nat (- e))"

text \<open>The binary exponent of a nonzero number: \<open>2 ^ e \<le> \<bar>x\<bar> < 2 ^ (e + 1)\<close>.\<close>

definition exponent :: "rat \<Rightarrow> int" where
  "exponent x =
     (let (p, q) = quotient_of \<bar>x\<bar>; e = bitlen p - bitlen q
      in if pow2 e \<le> \<bar>x\<bar> then e else e - 1)"

text \<open>Rounding to binary64: the nearest multiple of \<open>2 ^ (e - 52)\<close>, ties to even.\<close>

definition fl :: "rat \<Rightarrow> float" where
  "fl x =
     (if x = 0 then 0
      else let u = pow2 (exponent x - 52) in of_int (round_half_even (x / u)) * u)"

text \<open>A decimal literal of the source: \<^verbatim>\<open>3.3\<close> is \<open>float_literal 33 1\<close>.\<close>

definition float_literal :: "int \<Rightarrow> nat \<Rightarrow> float" where
  "float_literal n k = fl (of_int n / 10 ^ k)"

definition float_of_int :: "int \<Rightarrow> float" where
  "float_of_int i = fl (of_int i)"

definition float_add :: "float \<Rightarrow> float \<Rightarrow> float" where
  "float_add x y = fl (x + y)"

definition float_mul :: "float \<Rightarrow> float \<Rightarrow> float" where
  "float_mul x y = fl (x * y)"

text \<open>
  \<^verbatim>\<open>x / y\<close> on floats. Python raises ZeroDivisionError for \<open>y = 0\<close>; both divisions of
  the program are guarded (\<^verbatim>\<open>if not noten\<close>, \<^verbatim>\<open>if gesamt_ects > 0\<close>), so the
  functions below only call it with a nonzero divisor.
\<close>

definition float_truediv :: "float \<Rightarrow> float \<Rightarrow> float" where
  "float_truediv x y = fl (x / y)"

text \<open>
  \<^verbatim>\<open>round(x, 1)\<close>: CPython rounds the exact value of the float to one decimal place,
  ties to even, and converts the decimal back to the nearest float.
\<close>

definition py_round1 :: "float \<Rightarrow> float" where
  "py_round1 x = fl (of_int (round_half_even (x * 10)) / 10)"

section \<open>IUBewertungsmassstab\<close>

text \<open>
  The dictionary \<^verbatim>\<open>NOTEN_SKALA\<close> in insertion order. Strings are UTF-8 bytes;
  the default of \<^verbatim>\<open>note_zu_text\<close> has the two bytes of its u-umlaut written out.
\<close>

definition NOTEN_SKALA :: "(float \<times> string) list" where
  "NOTEN_SKALA =
     [(float_literal 10 1, ''Sehr gut''),
      (float_literal 13 1, ''Sehr gut''),
      (float_literal 17 1, ''Gut''),
      (float_literal 20 1, ''Gut''),
      (float_literal 23 1, ''Gut''),
      (float_literal 27 1, ''Befriedigend''),
      (float_literal 30 1, ''Befriedigend''),
      (float_literal 33 1, ''Befriedigend''),
      (float_literal 37 1, ''Ausreichend''),
      (float_literal 40 1, ''Ausreichend''),
      (float_literal 50 1, ''Nicht ausreichend'')]"

definition BESTANDEN_GRENZE :: float where
  "BESTANDEN_GRENZE = float_literal 40 1"

definition IUBewertungsmassstab_ist_bestanden :: "float \<Rightarrow> bool" where
  "IUBewertungsmassstab_ist_bestanden note = (note \<le> BESTANDEN_GRENZE)"

definition note_zu_text :: "float \<Rightarrow> string" where
  "note_zu_text note =
     (case map_of NOTEN_SKALA note of
        Some text \<Rightarrow> text
      | None \<Rightarrow> ''Ung'' @ [CHR 0xC3, CHR 0xBC] @ ''ltige Note'')"

definition gueltige_noten :: "float list" where
  "gueltige_noten = map fst NOTEN_SKALA"

section \<open>Values handed to the report\<close>

text \<open>
  The \<^verbatim>\<open>to_dict\<close> methods build nested dictionaries and lists of strings, numbers
  and \<^verbatim>\<open>None\<close>. A dictionary keeps its entries in insertion order.
\<close>

datatype pyval =
    PyNone
  | PyBool bool
  | PyInt int
  | PyFloat float
  | PyStr string
  | PyList "pyval list"
  | PyDict "(string \<times> pyval) list"

fun str_nat :: "nat \<Rightarrow> string" where
  "str_nat n =
     (if n < 10 then [char_of (48 + n)]
      else str_nat (n div 10) @ [char_of (48 + n mod 10)])"

definition str_int :: "int \<Rightarrow> string" where
  "str_int i = (if i < 0 then ''-'' @ str_nat (nat (- i)) else str_nat (nat i))"

definition zfill :: "nat \<Rightarrow> string \<Rightarrow> string" where
  "zfill k s = replicate (k - length s) (CHR ''0'') @ s"

datatype date = date (year: nat) (month: nat) (day: nat)

definition isoformat :: "date \<Rightarrow> string" where
  "isoformat d =
     zfill 4 (str_nat (year d)) @ ''-'' @ zfill 2 (str_nat (month d)) @ ''-''
       @ zfill 2 (str_nat (day d))"

text \<open>\<^verbatim>\<open>d1 < d2\<close> on dates: chronological order.\<close>

definition date_less :: "date \<Rightarrow> date \<Rightarrow> bool" where
  "date_less d1 d2 =
     (year d1 < year d2 \<or> (year d1 = year d2 \<and>
        (month d1 < month d2 \<or> (month d1 = month d2 \<and> day d1 < day d2))))"

section \<open>Enumerations\<close>

datatype PruefungsleistungsTyp = KLAUSUR | ADVANCED_WORKBOOK | PORTFOLIO

fun PruefungsleistungsTyp_value :: "PruefungsleistungsTyp \<Rightarrow> string" where
  "PruefungsleistungsTyp_value KLAUSUR = ''Klausur''"
| "PruefungsleistungsTyp_value ADVANCED_WORKBOOK = ''Advanced Workbook''"
| "PruefungsleistungsTyp_value PORTFOLIO = ''Portfolio''"

datatype StudiengangTyp = BACHELOR | MASTER | MBA

fun StudiengangTyp_value :: "StudiengangTyp \<Rightarrow> string" where
  "StudiengangTyp_value BACHELOR = ''Bachelor''"
| "StudiengangTyp_value MASTER = ''Master''"
| "StudiengangTyp_value MBA = ''MBA''"

datatype ModulStatus = NICHT_BEGONNEN | IN_BEARBEITUNG | BESTANDEN | NICHT_BESTANDEN

fun ModulStatus_value :: "ModulStatus \<Rightarrow> string" where
  "ModulStatus_value NICHT_BEGONNEN = ''Nicht begonnen''"
| "ModulStatus_value IN_BEARBEITUNG = ''In Bearbeitung''"
| "ModulStatus_value BESTANDEN = ''Bestanden''"
| "ModulStatus_value NICHT_BESTANDEN = ''Nicht bestanden''"

section \<open>Objects and the store\<close>

text \<open>
  The objects of the program are mutated after they have been linked into their owners
  (a module is added to a semester that already hangs in the Studiengang of the logged-in
  user). They therefore live in a store, one table of cells per class, and lists hold
  references. A field that two classes share has the class as a prefix
  (\<open>pl_typ\<close>, \<open>sg_typ\<close>, \<open>sg_name\<close>, \<open>user_name\<close>); \<open>note_attr\<close> is the
  attribute \<^verbatim>\<open>_note\<close>. The attributes that the three subclasses of
  \<^verbatim>\<open>Pruefungsleistung\<close> add are the field \<open>kind_attrs\<close>.
\<close>

type_synonym ref = nat

type_synonym datetime = nat

datatype kind_attrs =
    Klausur (dauer_minuten: int)
  | AdvancedWorkbook (bearbeitungszeit_wochen: int)
  | Portfolio (anzahl_aufgaben: int) (bearbeitungszeit_wochen: int)

record Pruefungsleistung =
  pl_typ :: PruefungsleistungsTyp
  note_attr :: "float option"
  datum :: "date option"
  versuch :: int
  status :: string
  kind_attrs :: kind_attrs

record Modul =
  titel :: string
  ects :: int
  pflicht :: bool
  pruefungsleistungen :: "ref list"

record Semester =
  nummer :: int
  startdatum :: date
  enddatum :: date
  module :: "ref list"

record Studiengang =
  sg_name :: string
  abschluss :: string
  sg_typ :: StudiengangTyp
  start_studium :: date
  ziel_note :: float
  ziel_dauer_semester :: int
  semester :: "ref list"

record User =
  user_id :: string
  user_name :: string
  email :: string
  rolle :: string
  studiengaenge :: "ref list"
  erstellt_am :: datetime

record DashboardController =
  users :: "string \<rightharpoonup> ref"
  current_user :: "ref option"

text \<open>
  \<open>next_ref\<close> is the next unused address; \<open>now\<close> is what \<^verbatim>\<open>datetime.now()\<close>
  returns.
\<close>

record state =
  Pruefungsleistung_at :: "ref \<Rightarrow> Pruefungsleistung"
  Modul_at :: "ref \<Rightarrow> Modul"
  Semester_at :: "ref \<Rightarrow> Semester"
  Studiengang_at :: "ref \<Rightarrow> Studiengang"
  User_at :: "ref \<Rightarrow> User"
  DashboardController_at :: "ref \<Rightarrow> DashboardController"
  next_ref :: ref
  now :: datetime

text \<open>
  The exceptions the program can raise. \<open>ValueError_Ungueltige_Note v\<close> is the
  \<^verbatim>\<open>ValueError\<close> of the grade setter with the rejected value,
  \<open>ValueError_Unbekannter_Typ\<close> the one of the factory; \<open>TypeError\<close> is the
  one of a constructor call with an unexpected keyword argument (its message names the
  first such keyword in the order of the call, which the record of keyword arguments
  below does not keep) and \<open>AttributeError\<close> a method call on \<^verbatim>\<open>None\<close>.
\<close>

datatype error =
    ValueError_Ungueltige_Note float
  | ValueError_Unbekannter_Typ PruefungsleistungsTyp
  | TypeError
  | AttributeError string

text \<open>
  A constructor, a setter or a method of the controller returns its result, or the
  exception it raised, together with the state it leaves behind.
\<close>

type_synonym 'a outcome = "(error + 'a) \<times> state"

definition and_then :: "'a outcome \<Rightarrow> ('a \<Rightarrow> state \<Rightarrow> 'b outcome) \<Rightarrow> 'b outcome" where
  "and_then m f = (case m of (Inl e, st) \<Rightarrow> (Inl e, st) | (Inr x, st) \<Rightarrow> f x st)"

section \<open>Pruefungsleistung\<close>

definition Pruefungsleistung_init ::
  "PruefungsleistungsTyp \<Rightarrow> float option \<Rightarrow> date option \<Rightarrow> int \<Rightarrow> kind_attrs
     \<Rightarrow> Pruefungsleistung" where
  "Pruefungsleistung_init typ note datum' versuch' attrs =
     \<lparr>pl_typ = typ, note_attr = note, datum = datum', versuch = versuch',
      status = ''Offen'', kind_attrs = attrs\<rparr>"

definition new_Pruefungsleistung :: "Pruefungsleistung \<Rightarrow> state \<Rightarrow> ref outcome" where
  "new_Pruefungsleistung p st =
     (Inr (next_ref st),
      st\<lparr>Pruefungsleistung_at := (Pruefungsleistung_at st)(next_ref st := p),
         next_ref := Suc (next_ref st)\<rparr>)"

text \<open>The property \<^verbatim>\<open>note\<close> and its setter.\<close>

definition note_getter :: "state \<Rightarrow> ref \<Rightarrow> float option" where
  "note_getter st r = note_attr (Pruefungsleistung_at st r)"

definition note_setter :: "ref \<Rightarrow> float option \<Rightarrow> state \<Rightarrow> unit outcome" where
  "note_setter r value st =
     (case value of
        Some v \<Rightarrow>
          if v \<notin> set gueltige_noten then (Inl (ValueError_Ungueltige_Note v), st)
          else
            (Inr (),
             st\<lparr>Pruefungsleistung_at := (Pruefungsleistung_at st)
                  (r := (Pruefungsleistung_at st r)
                     \<lparr>note_attr := Some v,
                      status := (if IUBewertungsmassstab_ist_bestanden v then ''Bestanden''
                                 else ''Nicht bestanden'')\<rparr>)\<rparr>)
      | None \<Rightarrow>
          (Inr (),
           st\<lparr>Pruefungsleistung_at := (Pruefungsleistung_at st)
                (r := (Pruefungsleistung_at st r)\<lparr>note_attr := None, status := ''Offen''\<rparr>)\<rparr>))"

definition Pruefungsleistung_ist_bestanden :: "state \<Rightarrow> ref \<Rightarrow> bool" where
  "Pruefungsleistung_ist_bestanden st r =
     (case note_getter st r of
        None \<Rightarrow> False
      | Some note \<Rightarrow> IUBewertungsmassstab_ist_bestanden note)"

definition wurde_abgelegt :: "state \<Rightarrow> ref \<Rightarrow> bool" where
  "wurde_abgelegt st r = (note_getter st r \<noteq> None)"

fun get_details :: "kind_attrs \<Rightarrow> pyval" where
  "get_details (Klausur dm) =
     PyDict [(''dauer_minuten'', PyInt dm),
             (''beschreibung'', PyStr (''Klausur ('' @ str_int dm @ '' Min.)''))]"
| "get_details (AdvancedWorkbook bw) =
     PyDict [(''bearbeitungszeit_wochen'', PyInt bw),
             (''beschreibung'', PyStr (''Advanced Workbook ('' @ str_int bw @ '' Wochen)''))]"
| "get_details (Portfolio aa bw) =
     PyDict [(''anzahl_aufgaben'', PyInt aa),
             (''bearbeitungszeit_wochen'', PyInt bw),
             (''beschreibung'', PyStr (''Portfolio ('' @ str_int aa @ '' Aufgaben)''))]"

definition Pruefungsleistung_to_dict :: "state \<Rightarrow> ref \<Rightarrow> pyval" where
  "Pruefungsleistung_to_dict st r =
     (let p = Pruefungsleistung_at st r
      in PyDict
          [(''typ'', PyStr (PruefungsleistungsTyp_value (pl_typ p))),
           (''note'', case note_getter st r of None \<Rightarrow> PyNone | Some x \<Rightarrow> PyFloat x),
           (''datum'', case datum p of None \<Rightarrow> PyNone | Some d \<Rightarrow> PyStr (isoformat d)),
           (''versuch'', PyInt (versuch p)),
           (''status'', PyStr (status p)),
           (''details'', get_details (kind_attrs p))])"

text \<open>
  The keyword arguments of a constructor call: \<open>None\<close> is a keyword that was not
  given (for \<^verbatim>\<open>note\<close> and \<^verbatim>\<open>datum\<close> also the value \<^verbatim>\<open>None\<close>, which is
  their default). Each subclass takes its own keywords and hands the others to
  \<^verbatim>\<open>Pruefungsleistung.__init__\<close>, which accepts \<^verbatim>\<open>note\<close>, \<^verbatim>\<open>datum\<close> and
  \<^verbatim>\<open>versuch\<close> and raises a TypeError for any other.
\<close>

record kwargs =
  kw_dauer_minuten :: "int option"
  kw_bearbeitungszeit_wochen :: "int option"
  kw_anzahl_aufgaben :: "int option"
  kw_note :: "float option"
  kw_datum :: "date option"
  kw_versuch :: "int option"

definition no_kwargs :: kwargs where
  "no_kwargs =
     \<lparr>kw_dauer_minuten = None, kw_bearbeitungszeit_wochen = None, kw_anzahl_aufgaben = None,
      kw_note = None, kw_datum = None, kw_versuch = None\<rparr>"

definition default :: "'a option \<Rightarrow> 'a \<Rightarrow> 'a" where
  "default given d = (case given of None \<Rightarrow> d | Some x \<Rightarrow> x)"

definition Klausur_init :: "kwargs \<Rightarrow> state \<Rightarrow> ref outcome" where
  "Klausur_init kw st =
     (if kw_bearbeitungszeit_wochen kw \<noteq> None then (Inl TypeError, st)
      else if kw_anzahl_aufgaben kw \<noteq> None then (Inl TypeError, st)
      else new_Pruefungsleistung
             (Pruefungsleistung_init KLAUSUR (kw_note kw) (kw_datum kw)
                (default (kw_versuch kw) 1) (Klausur (default (kw_dauer_minuten kw) 120))) st)"

definition AdvancedWorkbook_init :: "kwargs \<Rightarrow> state \<Rightarrow> ref outcome" where
  "AdvancedWorkbook_init kw st =
     (if kw_dauer_minuten kw \<noteq> None then (Inl TypeError, st)
      else if kw_anzahl_aufgaben kw \<noteq> None then (Inl TypeError, st)
      else new_Pruefungsleistung
             (Pruefungsleistung_init ADVANCED_WORKBOOK (kw_note kw) (kw_datum kw)
                (default (kw_versuch kw) 1)
                (AdvancedWorkbook (default (kw_bearbeitungszeit_wochen kw) 4))) st)"

definition Portfolio_init :: "kwargs \<Rightarrow> state \<Rightarrow> ref outcome" where
  "Portfolio_init kw st =
     (if kw_dauer_minuten kw \<noteq> None then (Inl TypeError, st)
      else new_Pruefungsleistung
             (Pruefungsleistung_init PORTFOLIO (kw_note kw) (kw_datum kw)
                (default (kw_versuch kw) 1)
                (Portfolio (default (kw_anzahl_aufgaben kw) 3)
                   (default (kw_bearbeitungszeit_wochen kw) 8))) st)"

section \<open>Modul\<close>

definition Modul_init :: "string \<Rightarrow> int \<Rightarrow> bool \<Rightarrow> state \<Rightarrow> ref outcome" where
  "Modul_init titel' ects' pflicht' st =
     (Inr (next_ref st),
      st\<lparr>Modul_at := (Modul_at st)
           (next_ref st :=
              \<lparr>titel = titel', ects = ects', pflicht = pflicht', pruefungsleistungen = []\<rparr>),
         next_ref := Suc (next_ref st)\<rparr>)"

definition add_pruefungsleistung :: "ref \<Rightarrow> ref \<Rightarrow> state \<Rightarrow> state" where
  "add_pruefungsleistung r pruefungsleistung st =
     st\<lparr>Modul_at := (Modul_at st)
          (r := (Modul_at st r)
             \<lparr>pruefungsleistungen := pruefungsleistungen (Modul_at st r) @ [pruefungsleistung]\<rparr>)\<rparr>"

definition Modul_ist_bestanden :: "state \<Rightarrow> ref \<Rightarrow> bool" where
  "Modul_ist_bestanden st r =
     (if pruefungsleistungen (Modul_at st r) = [] then False
      else list_all (Pruefungsleistung_ist_bestanden st) (pruefungsleistungen (Modul_at st r)))"

definition get_status :: "state \<Rightarrow> ref \<Rightarrow> ModulStatus" where
  "get_status st r =
     (if pruefungsleistungen (Modul_at st r) = [] then NICHT_BEGONNEN
      else
        let alle_abgelegt = list_all (wurde_abgelegt st) (pruefungsleistungen (Modul_at st r))
        in if alle_abgelegt
           then (if Modul_ist_bestanden st r then BESTANDEN else NICHT_BESTANDEN)
           else IN_BEARBEITUNG)"

definition Modul_erreichte_ects :: "state \<Rightarrow> ref \<Rightarrow> int" where
  "Modul_erreichte_ects st r = (if Modul_ist_bestanden st r then ects (Modul_at st r) else 0)"

text \<open>
  \<^verbatim>\<open>sum(noten)\<close> adds from the left, starting at 0. (CPython 3.12 and later
  compensate the rounding errors of the additions; on the one grade that every module of
  the sample data has, both give that grade.)
\<close>

definition float_sum :: "float list \<Rightarrow> float" where
  "float_sum xs = foldl float_add 0 xs"

definition get_durchschnittsnote :: "state \<Rightarrow> ref \<Rightarrow> float option" where
  "get_durchschnittsnote st r =
     (let noten = List.map_filter (note_getter st) (pruefungsleistungen (Modul_at st r))
      in if noten = [] then None
         else Some (py_round1
                (float_truediv (float_sum noten) (float_of_int (int (length noten))))))"

definition Modul_to_dict :: "state \<Rightarrow> ref \<Rightarrow> pyval" where
  "Modul_to_dict st r =
     (let m = Modul_at st r
      in PyDict
          [(''titel'', PyStr (titel m)),
           (''ects'', PyInt (ects m)),
           (''pflicht'', PyBool (pflicht m)),
           (''status'', PyStr (ModulStatus_value (get_status st r))),
           (''durchschnittsnote'',
              case get_durchschnittsnote st r of None \<Rightarrow> PyNone | Some x \<Rightarrow> PyFloat x),
           (''pruefungsleistungen'',
              PyList (map (Pruefungsleistung_to_dict st) (pruefungsleistungen m)))])"

section \<open>Semester\<close>

definition Semester_init :: "int \<Rightarrow> date \<Rightarrow> date \<Rightarrow> state \<Rightarrow> ref outcome" where
  "Semester_init nummer' startdatum' enddatum' st =
     (Inr (next_ref st),
      st\<lparr>Semester_at := (Semester_at st)
           (next_ref st :=
              \<lparr>nummer = nummer', startdatum = startdatum', enddatum = enddatum', module = []\<rparr>),
         next_ref := Suc (next_ref st)\<rparr>)"

definition add_modul :: "ref \<Rightarrow> ref \<Rightarrow> state \<Rightarrow> state" where
  "add_modul r modul st =
     st\<lparr>Semester_at := (Semester_at st)
          (r := (Semester_at st r)\<lparr>module := module (Semester_at st r) @ [modul]\<rparr>)\<rparr>"

definition Semester_erreichte_ects :: "state \<Rightarrow> ref \<Rightarrow> int" where
  "Semester_erreichte_ects st r = sum_list (map (Modul_erreichte_ects st) (module (Semester_at st r)))"

definition gesamt_ects_semester :: "state \<Rightarrow> ref \<Rightarrow> int" where
  "gesamt_ects_semester st r = sum_list (map (\<lambda>modul. ects (Modul_at st modul)) (module (Semester_at st r)))"

text \<open>
  The loop over the modules that \<^verbatim>\<open>Semester.durchschnittsnote\<close> and
  \<^verbatim>\<open>Studiengang.berechne_gesamtnote\<close> share, on the pair of their two local
  variables \<^verbatim>\<open>gewichtete_summe\<close> and \<^verbatim>\<open>gesamt_ects\<close>. The product
  \<^verbatim>\<open>note * modul.ects\<close> converts the credits to a float first.
\<close>

fun module_loop :: "state \<Rightarrow> ref list \<Rightarrow> float \<times> int \<Rightarrow> float \<times> int" where
  "module_loop st [] (gewichtete_summe, gesamt_ects) = (gewichtete_summe, gesamt_ects)"
| "module_loop st (modul # rest) (gewichtete_summe, gesamt_ects) =
     (if Modul_ist_bestanden st modul then
        (case get_durchschnittsnote st modul of
           Some note \<Rightarrow>
             module_loop st rest
               (float_add gewichtete_summe (float_mul note (float_of_int (ects (Modul_at st modul)))),
                gesamt_ects + ects (Modul_at st modul))
         | None \<Rightarrow> module_loop st rest (gewichtete_summe, gesamt_ects))
      else module_loop st rest (gewichtete_summe, gesamt_ects))"

definition gewichtete_note :: "float \<times> int \<Rightarrow> float option" where
  "gewichtete_note acc =
     (case acc of (gewichtete_summe, gesamt_ects) \<Rightarrow>
        if gesamt_ects > 0
        then Some (py_round1 (float_truediv gewichtete_summe (float_of_int gesamt_ects)))
        else None)"

definition Semester_durchschnittsnote :: "state \<Rightarrow> ref \<Rightarrow> float option" where
  "Semester_durchschnittsnote st r = gewichtete_note (module_loop st (module (Semester_at st r)) (0, 0))"

definition Semester_to_dict :: "state \<Rightarrow> ref \<Rightarrow> pyval" where
  "Semester_to_dict st r =
     (let s = Semester_at st r
      in PyDict
          [(''nummer'', PyInt (nummer s)),
           (''startdatum'', PyStr (isoformat (startdatum s))),
           (''enddatum'', PyStr (isoformat (enddatum s))),
           (''gesamt_ects'', PyInt (gesamt_ects_semester st r)),
           (''erreichte_ects'', PyInt (Semester_erreichte_ects st r)),
           (''durchschnittsnote'',
              case Semester_durchschnittsnote st r of None \<Rightarrow> PyNone | Some x \<Rightarrow> PyFloat x),
           (''module'', PyList (map (Modul_to_dict st) (module s)))])"

section \<open>Studiengang\<close>

definition Studiengang_init ::
  "string \<Rightarrow> string \<Rightarrow> StudiengangTyp \<Rightarrow> date \<Rightarrow> float \<Rightarrow> int \<Rightarrow> state \<Rightarrow> ref outcome" where
  "Studiengang_init name abschluss' typ start_studium' ziel_note' ziel_dauer_semester' st =
     (Inr (next_ref st),
      st\<lparr>Studiengang_at := (Studiengang_at st)
           (next_ref st :=
              \<lparr>sg_name = name, abschluss = abschluss', sg_typ = typ,
               start_studium = start_studium', ziel_note = ziel_note',
               ziel_dauer_semester = ziel_dauer_semester', semester = []\<rparr>),
         next_ref := Suc (next_ref st)\<rparr>)"

definition add_semester :: "ref \<Rightarrow> ref \<Rightarrow> state \<Rightarrow> state" where
  "add_semester r semester' st =
     st\<lparr>Studiengang_at := (Studiengang_at st)
          (r := (Studiengang_at st r)\<lparr>semester := semester (Studiengang_at st r) @ [semester']\<rparr>)\<rparr>"

definition berechne_gesamt_ects :: "state \<Rightarrow> ref \<Rightarrow> int" where
  "berechne_gesamt_ects st r =
     sum_list (map (Semester_erreichte_ects st) (semester (Studiengang_at st r)))"

fun semester_loop :: "state \<Rightarrow> ref list \<Rightarrow> float \<times> int \<Rightarrow> float \<times> int" where
  "semester_loop st [] acc = acc"
| "semester_loop st (semester' # rest) acc =
     semester_loop st rest (module_loop st (module (Semester_at st semester')) acc)"

definition berechne_gesamtnote :: "state \<Rightarrow> ref \<Rightarrow> float option" where
  "berechne_gesamtnote st r =
     gewichtete_note (semester_loop st (semester (Studiengang_at st r)) (0, 0))"

definition ist_im_zeitplan :: "state \<Rightarrow> ref \<Rightarrow> bool" where
  "ist_im_zeitplan st r =
     (let aktuelles_semester = int (length (semester (Studiengang_at st r)))
      in aktuelles_semester \<le> ziel_dauer_semester (Studiengang_at st r))"

definition ziel_erreicht :: "state \<Rightarrow> ref \<Rightarrow> bool" where
  "ziel_erreicht st r =
     (case berechne_gesamtnote st r of
        None \<Rightarrow> False
      | Some gesamtnote \<Rightarrow> gesamtnote \<le> ziel_note (Studiengang_at st r))"

definition Studiengang_to_dict :: "state \<Rightarrow> ref \<Rightarrow> pyval" where
  "Studiengang_to_dict st r =
     (let g = Studiengang_at st r
      in PyDict
          [(''name'', PyStr (sg_name g)),
           (''abschluss'', PyStr (abschluss g)),
           (''typ'', PyStr (StudiengangTyp_value (sg_typ g))),
           (''start_studium'', PyStr (isoformat (start_studium g))),
           (''ziel_note'', PyFloat (ziel_note g)),
           (''ziel_dauer_semester'', PyInt (ziel_dauer_semester g)),
           (''gesamt_ects'', PyInt (berechne_gesamt_ects st r)),
           (''gesamtnote'',
              case berechne_gesamtnote st r of None \<Rightarrow> PyNone | Some x \<Rightarrow> PyFloat x),
           (''im_zeitplan'', PyBool (ist_im_zeitplan st r)),
           (''ziel_erreicht'', PyBool (ziel_erreicht st r)),
           (''semester'', PyList (map (Semester_to_dict st) (semester g)))])"

section \<open>User\<close>

definition User_init :: "string \<Rightarrow> string \<Rightarrow> string \<Rightarrow> string \<Rightarrow> state \<Rightarrow> ref outcome" where
  "User_init user_id' name email' rolle' st =
     (Inr (next_ref st),
      st\<lparr>User_at := (User_at st)
           (next_ref st :=
              \<lparr>user_id = user_id', user_name = name, email = email', rolle = rolle',
               studiengaenge = [], erstellt_am = now st\<rparr>),
         next_ref := Suc (next_ref st)\<rparr>)"

definition add_studiengang :: "ref \<Rightarrow> ref \<Rightarrow> state \<Rightarrow> state" where
  "add_studiengang r studiengang st =
     st\<lparr>User_at := (User_at st)
          (r := (User_at st r)\<lparr>studiengaenge := studiengaenge (User_at st r) @ [studiengang]\<rparr>)\<rparr>"

definition get_aktueller_studiengang :: "state \<Rightarrow> ref \<Rightarrow> ref option" where
  "get_aktueller_studiengang st r =
     (if studiengaenge (User_at st r) = [] then None
      else Some (last (studiengaenge (User_at st r))))"

definition zeige_dashboard :: "state \<Rightarrow> ref \<Rightarrow> pyval" where
  "zeige_dashboard st r =
     (case get_aktueller_studiengang st r of
        None \<Rightarrow> PyDict [(''error'', PyStr ''Kein Studiengang gefunden'')]
      | Some aktueller_studiengang \<Rightarrow>
          PyDict
            [(''user'',
                PyDict [(''name'', PyStr (user_name (User_at st r))),
                        (''email'', PyStr (email (User_at st r))),
                        (''rolle'', PyStr (rolle (User_at st r)))]),
             (''studiengang'', Studiengang_to_dict st aktueller_studiengang),
             (''fortschritt'',
                PyDict
                  [(''gesamt_ects'', PyInt (berechne_gesamt_ects st aktueller_studiengang)),
                   (''gesamtnote'',
                      case berechne_gesamtnote st aktueller_studiengang of
                        None \<Rightarrow> PyNone
                      | Some x \<Rightarrow> PyFloat x),
                   (''im_zeitplan'', PyBool (ist_im_zeitplan st aktueller_studiengang)),
                   (''ziel_erreicht'', PyBool (ziel_erreicht st aktueller_studiengang))])])"

section \<open>DashboardController\<close>

definition DashboardController_init :: "state \<Rightarrow> ref outcome" where
  "DashboardController_init st =
     (Inr (next_ref st),
      st\<lparr>DashboardController_at := (DashboardController_at st)
           (next_ref st := \<lparr>users = Map.empty, current_user = None\<rparr>),
         next_ref := Suc (next_ref st)\<rparr>)"

definition create_user ::
  "ref \<Rightarrow> string \<Rightarrow> string \<Rightarrow> string \<Rightarrow> string \<Rightarrow> state \<Rightarrow> ref outcome" where
  "create_user c user_id' name email' rolle' st =
     and_then (User_init user_id' name email' rolle' st) (\<lambda>user st.
       (Inr user,
        st\<lparr>DashboardController_at := (DashboardController_at st)
             (c := (DashboardController_at st c)
                \<lparr>users := (users (DashboardController_at st c))(user_id' \<mapsto> user)\<rparr>)\<rparr>))"

definition login_user :: "ref \<Rightarrow> string \<Rightarrow> state \<Rightarrow> bool outcome" where
  "login_user c user_id' st =
     (case users (DashboardController_at st c) user_id' of
        Some user \<Rightarrow>
          (Inr True,
           st\<lparr>DashboardController_at := (DashboardController_at st)
                (c := (DashboardController_at st c)\<lparr>current_user := Some user\<rparr>)\<rparr>)
      | None \<Rightarrow> (Inr False, st))"

definition create_studiengang ::
  "ref \<Rightarrow> string \<Rightarrow> string \<Rightarrow> StudiengangTyp \<Rightarrow> date \<Rightarrow> float \<Rightarrow> int \<Rightarrow> state
     \<Rightarrow> ref option outcome" where
  "create_studiengang c name abschluss' typ start_studium' ziel_note' ziel_dauer_semester' st =
     (case current_user (DashboardController_at st c) of
        None \<Rightarrow> (Inr None, st)
      | Some user \<Rightarrow>
          and_then
            (Studiengang_init name abschluss' typ start_studium' ziel_note' ziel_dauer_semester' st)
            (\<lambda>studiengang st. (Inr (Some studiengang), add_studiengang user studiengang st)))"

definition create_pruefungsleistung ::
  "ref \<Rightarrow> PruefungsleistungsTyp \<Rightarrow> kwargs \<Rightarrow> state \<Rightarrow> ref outcome" where
  "create_pruefungsleistung c typ kw st =
     (if typ = KLAUSUR then Klausur_init kw st
      else if typ = ADVANCED_WORKBOOK then AdvancedWorkbook_init kw st
      else if typ = PORTFOLIO then Portfolio_init kw st
      else (Inl (ValueError_Unbekannter_Typ typ), st))"

definition get_dashboard_data :: "state \<Rightarrow> ref \<Rightarrow> pyval option" where
  "get_dashboard_data st c =
     (case current_user (DashboardController_at st c) of
        None \<Rightarrow> None
      | Some user \<Rightarrow> Some (zeige_dashboard st user))"

section \<open>The sample data\<close>

text \<open>
  \<^verbatim>\<open>create_iu_medizinische_informatik_data\<close>, statement by statement. The default
  arguments of the source are written out (\<^verbatim>\<open>rolle="Student"\<close>); the u-umlaut of a
  name or title is its two UTF-8 bytes.
\<close>

definition uuml :: string where
  "uuml = [CHR 0xC3, CHR 0xBC]"

definition create_iu_medizinische_informatik_data :: "state \<Rightarrow> ref outcome" where
  "create_iu_medizinische_informatik_data st0 =
     and_then (DashboardController_init st0) (\<lambda>controller st.
     and_then (create_user controller ''IU14125513'' (''Christine M'' @ uuml @ ''nzberg'')
                 ''christine_muenzberg@web.de'' ''Student'' st) (\<lambda>user st.
     and_then (login_user controller ''IU14125513'' st) (\<lambda>_ st.
     and_then (create_studiengang controller ''Medizinische Informatik'' ''Bachelor of Science''
                 BACHELOR (date 2025 1 1) (float_literal 20 1) 8 st) (\<lambda>studiengang st.
     and_then (Semester_init 1 (date 2025 1 1) (date 2025 6 30) st) (\<lambda>semester1 st.
     case studiengang of
       None \<Rightarrow> (Inl (AttributeError ''add_semester''), st)
     | Some studiengang \<Rightarrow>
     let st = add_semester studiengang semester1 st in
     and_then (Modul_init (''Einf'' @ uuml @ ''hrung in das wissenschaftliche Arbeiten f''
                 @ uuml @ ''r IT und Technik'') 5 True st) (\<lambda>einfuehrung_wiss st.
     and_then (create_pruefungsleistung controller ADVANCED_WORKBOOK
                 (no_kwargs\<lparr>kw_bearbeitungszeit_wochen := Some 6,
                    kw_note := Some (float_literal 20 1),
                    kw_datum := Some (date 2025 3 29)\<rparr>) st) (\<lambda>workbook_wiss st.
     let st = add_pruefungsleistung einfuehrung_wiss workbook_wiss st;
         st = add_modul semester1 einfuehrung_wiss st in
     and_then (Modul_init (''Medizin f'' @ uuml @ ''r Nichtmediziner:innen I'') 5 True st)
       (\<lambda>medizin_nichtmed st.
     and_then (create_pruefungsleistung controller KLAUSUR
                 (no_kwargs\<lparr>kw_dauer_minuten := Some 90,
                    kw_note := Some (float_literal 33 1),
                    kw_datum := Some (date 2024 12 10)\<rparr>) st) (\<lambda>klausur_med st.
     let st = add_pruefungsleistung medizin_nichtmed klausur_med st;
         st = add_modul semester1 medizin_nichtmed st in
     and_then (Modul_init (''Einf'' @ uuml @ ''hrung in die Programmierung mit Python'') 5 True st)
       (\<lambda>programmierung_python st.
     and_then (create_pruefungsleistung controller KLAUSUR
                 (no_kwargs\<lparr>kw_dauer_minuten := Some 90,
                    kw_note := Some (float_literal 20 1),
                    kw_datum := Some (date 2025 3 1)\<rparr>) st) (\<lambda>klausur_prog st.
     let st = add_pruefungsleistung programmierung_python klausur_prog st;
         st = add_modul semester1 programmierung_python st in
     and_then (Modul_init ''E-Health'' 5 True st) (\<lambda>ehealth st.
     and_then (create_pruefungsleistung controller KLAUSUR
                 (no_kwargs\<lparr>kw_dauer_minuten := Some 90,
                    kw_note := Some (float_literal 20 1),
                    kw_datum := Some (date 2025 2 1)\<rparr>) st) (\<lambda>klausur_ehealth st.
     let st = add_pruefungsleistung ehealth klausur_ehealth st;
         st = add_modul semester1 ehealth st in
     and_then (Modul_init
                 ''Projekt: Objektorientierte und funktionale Programmierung mit Python''
                 5 True st) (\<lambda>projekt_oop st.
     and_then (create_pruefungsleistung controller PORTFOLIO
                 (no_kwargs\<lparr>kw_anzahl_aufgaben := Some 4,
                    kw_bearbeitungszeit_wochen := Some 6\<rparr>) st) (\<lambda>portfolio_oop st.
     let st = add_pruefungsleistung projekt_oop portfolio_oop st;
         st = add_modul semester1 projekt_oop st in
     (Inr controller, st))))))))))))))))"

text \<open>
  The state in which the program starts: no object has been allocated. The cells of a
  table that no reference points to hold a placeholder, which nothing reads.
\<close>

definition empty_state :: "datetime \<Rightarrow> state" where
  "empty_state t =
     \<lparr>Pruefungsleistung_at = (\<lambda>_. Pruefungsleistung_init KLAUSUR None None 1 (Klausur 120)),
      Modul_at = (\<lambda>_. \<lparr>titel = [], ects = 0, pflicht = True, pruefungsleistungen = []\<rparr>),
      Semester_at =
        (\<lambda>_. \<lparr>nummer = 0, startdatum = date 1 1 1, enddatum = date 1 1 1, module = []\<rparr>),
      Studiengang_at =
        (\<lambda>_. \<lparr>sg_name = [], abschluss = [], sg_typ = BACHELOR, start_studium = date 1 1 1,
              ziel_note = float_literal 20 1, ziel_dauer_semester = 6, semester = []\<rparr>),
      User_at =
        (\<lambda>_. \<lparr>user_id = [], user_name = [], email = [], rolle = [], studiengaenge = [],
              erstellt_am = t\<rparr>),
      DashboardController_at = (\<lambda>_. \<lparr>users = Map.empty, current_user = None\<rparr>),
      next_ref = 0,
      now = t\<rparr>"

section \<open>Example runs\<close>

text \<open>A written exam whose grade 2.0 was entered through the setter.\<close>

definition graded_example :: "ref outcome" where
  "graded_example =
     and_then (Klausur_init no_kwargs (empty_state 0)) (\<lambda>klausur st.
     and_then (note_setter klausur (Some (float_literal 20 1)) st) (\<lambda>_ st.
     (Inr klausur, st)))"

text \<open>
  A registry with one student who has logged in and owns no Studiengang yet.
\<close>

definition registry_example :: "ref outcome" where
  "registry_example =
     and_then (DashboardController_init (empty_state 0)) (\<lambda>controller st.
     and_then (create_user controller ''IU1'' ''Ada'' ''ada@example.org'' ''Student'' st) (\<lambda>user st.
     and_then (login_user controller ''IU1'' st) (\<lambda>_ st.
     (Inr controller, st))))"

text \<open>
  A semester with two modules of 5 credits, each with one written exam, graded 2.0 and 3.3.
\<close>

definition term_example :: "ref outcome" where
  "term_example =
     and_then (Semester_init 1 (date 2025 1 1) (date 2025 6 30) (empty_state 0)) (\<lambda>semester1 st.
     and_then (Modul_init ''A'' 5 True st) (\<lambda>modul_a st.
     and_then (Klausur_init (no_kwargs\<lparr>kw_note := Some (float_literal 20 1)\<rparr>) st) (\<lambda>klausur_a st.
     let st = add_pruefungsleistung modul_a klausur_a st;
         st = add_modul semester1 modul_a st in
     and_then (Modul_init ''B'' 5 True st) (\<lambda>modul_b st.
     and_then (Klausur_init (no_kwargs\<lparr>kw_note := Some (float_literal 33 1)\<rparr>) st) (\<lambda>klausur_b st.
     let st = add_pruefungsleistung modul_b klausur_b st;
         st = add_modul semester1 modul_b st in
     (Inr semester1, st))))))"

text \<open>The state that the sample data leave behind.\<close>

definition sample_state :: state where
  "sample_state = snd (create_iu_medizinische_informatik_data (empty_state 0))"

section \<open>The weighted average as the specification words it\<close>

text \<open>
  The modules of a semester that count: passed, with an average grade. Each is paired
  with its credits. The specification's weighted average is the sum of average times
  credits over these modules, divided by the sum of their credits and rounded to one
  decimal, and no value when there is no such module. The sums run in the order of the
  modules.
\<close>

definition counted_modules :: "state \<Rightarrow> ref list \<Rightarrow> (float \<times> int) list" where
  "counted_modules st ms =
     List.map_filter
       (\<lambda>modul. if Modul_ist_bestanden st modul
          then map_option (\<lambda>note. (note, ects (Modul_at st modul))) (get_durchschnittsnote st modul)
          else None) ms"

definition weighted_average_spec :: "(float \<times> int) list \<Rightarrow> float option" where
  "weighted_average_spec counted =
     (if counted = [] then None
      else Some (py_round1
             (float_truediv
                (float_sum (map (\<lambda>(note, credits). float_mul note (float_of_int credits)) counted))
                (float_of_int (sum_list (map snd counted))))))"

section \<open>The rounding of floats\<close>

text \<open>
  \<open>fl x\<close> is a binary64 number next to \<open>x\<close>: an integer of 53 bits times the
  power of two that is the unit in the last place of \<open>x\<close>, at most half that unit away
  from \<open>x\<close>.
\<close>

lemma pow2_powi: "pow2 e = 2 powi e"
  by (simp add: pow2_def power_int_def inverse_eq_divide power_one_over)

lemma pow2_pos: "0 < pow2 e"
  by (simp add: pow2_powi)

lemma pow2_add: "pow2 (a + b) = pow2 a * pow2 b"
  by (simp add: pow2_powi power_int_add)

lemma round_half_even_nearest: "\<bar>of_int (round_half_even q) - q\<bar> \<le> 1 / 2"
proof -
  have "of_int \<lfloor>q\<rfloor> \<le> q" and "q < of_int \<lfloor>q\<rfloor> + 1"
    by linarith+
  then show ?thesis
    unfolding round_half_even_def Let_def by (auto simp: abs_le_iff)
qed

lemma bitlen_le_rat:
  assumes "0 < (p::int)"
  shows "pow2 (bitlen p - 1) \<le> of_int p" "of_int p < pow2 (bitlen p)"
proof -
  from bitlen_bounds [OF assms] have a: "2 ^ nat (bitlen p - 1) \<le> p" and b: "p < 2 ^ nat (bitlen p)"
    by simp_all
  have pos: "0 < bitlen p"
    using assms bitlen_nonneg [of p] bitlen_eq_zero_iff [of p] by linarith
  from a have "(of_int (2 ^ nat (bitlen p - 1)) :: rat) \<le> of_int p" by (rule of_int_le_iff [THEN iffD2])
  then show "pow2 (bitlen p - 1) \<le> of_int p" using pos by (simp add: pow2_def)
  from b have "(of_int p :: rat) < of_int (2 ^ nat (bitlen p))" by (rule of_int_less_iff [THEN iffD2])
  then show "of_int p < pow2 (bitlen p)" using pos by (simp add: pow2_def)
qed

lemma exponent_bounds:
  assumes "x \<noteq> 0"
  shows "pow2 (exponent x) \<le> \<bar>x\<bar> \<and> \<bar>x\<bar> < pow2 (exponent x + 1)"
proof -
  obtain p q where pq: "quotient_of \<bar>x\<bar> = (p, q)" by (cases "quotient_of \<bar>x\<bar>")
  then have q: "0 < q" and x: "\<bar>x\<bar> = of_int p / of_int q"
    by (simp_all add: quotient_of_denom_pos quotient_of_div)
  from assms have "0 < \<bar>x\<bar>" by simp
  with x q have p: "0 < p"
    by (simp add: zero_less_divide_iff)
  let ?e = "bitlen p - bitlen q"
  have up: "\<bar>x\<bar> < pow2 (?e + 1)"
  proof -
    have "of_int p < pow2 (bitlen p)" by (rule bitlen_le_rat [OF p])
    also have "pow2 (bitlen p) = pow2 (?e + 1) * pow2 (bitlen q - 1)"
      by (simp add: pow2_add [symmetric])
    also have "\<dots> \<le> pow2 (?e + 1) * of_int q"
      using bitlen_le_rat(1) [OF q] pow2_pos [of "?e + 1"] by simp
    finally show ?thesis using q by (simp add: x pos_divide_less_eq)
  qed
  have lo: "pow2 (?e - 1) \<le> \<bar>x\<bar>"
  proof -
    have "pow2 (?e - 1) * of_int q \<le> pow2 (?e - 1) * pow2 (bitlen q)"
      using bitlen_le_rat(2) [OF q] pow2_pos [of "?e - 1"] by simp
    also have "\<dots> = pow2 (bitlen p - 1)"
      by (simp add: pow2_add [symmetric])
    also have "\<dots> \<le> of_int p" by (rule bitlen_le_rat [OF p])
    finally show ?thesis using q by (simp add: x pos_le_divide_eq)
  qed
  show ?thesis
    using up lo pq by (auto simp: exponent_def Let_def)
qed

lemma fl_half_ulp:
  assumes "x \<noteq> 0"
  shows "\<bar>fl x - x\<bar> \<le> pow2 (exponent x - 53)"
proof -
  let ?u = "pow2 (exponent x - 52)"
  have u: "0 < ?u" by (rule pow2_pos)
  have "fl x - x = (of_int (round_half_even (x / ?u)) - x / ?u) * ?u"
    using assms u by (simp add: fl_def Let_def algebra_simps)
  then have "\<bar>fl x - x\<bar> = \<bar>of_int (round_half_even (x / ?u)) - x / ?u\<bar> * ?u"
    using u by (simp add: abs_mult)
  also have "\<dots> \<le> (1 / 2) * ?u"
    using round_half_even_nearest [of "x / ?u"] u by (intro mult_right_mono) simp_all
  also have "\<dots> = pow2 (exponent x - 53)"
  proof -
    have "pow2 (exponent x - 52) = pow2 (exponent x - 53) * pow2 1"
      by (simp add: pow2_add [symmetric])
    then show ?thesis by (simp add: pow2_def)
  qed
  finally show ?thesis .
qed


lemma fl_significand:
  assumes "x \<noteq> 0"
  shows "fl x = of_int (round_half_even (x / pow2 (exponent x - 52))) * pow2 (exponent x - 52)
       \<and> 2 ^ 52 \<le> \<bar>round_half_even (x / pow2 (exponent x - 52))\<bar>
       \<and> \<bar>round_half_even (x / pow2 (exponent x - 52))\<bar> \<le> 2 ^ 53"
proof -
  let ?u = "pow2 (exponent x - 52)"
  let ?n = "round_half_even (x / ?u)"
  have u: "0 < ?u" by (rule pow2_pos)
  have e: "pow2 (exponent x) = pow2 52 * ?u" "pow2 (exponent x + 1) = pow2 53 * ?u"
    by (simp_all add: pow2_add [symmetric] add.commute)
  from exponent_bounds [OF assms] have "pow2 52 * ?u \<le> \<bar>x\<bar>" "\<bar>x\<bar> < pow2 53 * ?u"
    by (simp_all add: e)
  then have q: "pow2 52 \<le> \<bar>x / ?u\<bar>" "\<bar>x / ?u\<bar> < pow2 53"
    using u by (simp_all add: pos_le_divide_eq pos_divide_less_eq)
  have p: "pow2 52 = (2 ^ 52 :: rat)" "pow2 53 = (2 ^ 53 :: rat)"
    by (simp_all add: pow2_def)
  from round_half_even_nearest [of "x / ?u"] q
  have "(2 ^ 52 :: rat) - 1 / 2 \<le> \<bar>of_int ?n\<bar>" "\<bar>of_int ?n :: rat\<bar> < 2 ^ 53 + 1 / 2"
    unfolding p by linarith+
  then have "(of_int (2 ^ 52 - 1) :: rat) < of_int \<bar>?n\<bar>" "(of_int \<bar>?n\<bar> :: rat) < of_int (2 ^ 53 + 1)"
    by simp_all
  then have "2 ^ 52 - 1 < \<bar>?n\<bar>" "\<bar>?n\<bar> < 2 ^ 53 + 1"
    unfolding of_int_less_iff by simp_all
  then show ?thesis
    using assms by (simp add: fl_def Let_def)
qed

section \<open>Evaluation lemmas\<close>

lemmas cmd_defs =
  and_then_def DashboardController_init_def create_user_def User_init_def login_user_def
  create_studiengang_def Studiengang_init_def add_studiengang_def Semester_init_def
  add_semester_def Modul_init_def create_pruefungsleistung_def Klausur_init_def
  AdvancedWorkbook_init_def Portfolio_init_def new_Pruefungsleistung_def
  Pruefungsleistung_init_def add_pruefungsleistung_def add_modul_def no_kwargs_def
  default_def empty_state_def

lemmas query_defs =
  get_aktueller_studiengang_def berechne_gesamt_ects_def berechne_gesamtnote_def
  ist_im_zeitplan_def ziel_erreicht_def Semester_erreichte_ects_def Modul_erreichte_ects_def
  Modul_ist_bestanden_def Pruefungsleistung_ist_bestanden_def note_getter_def
  get_durchschnittsnote_def List.map_filter_def float_sum_def

text \<open>The floats that some literals of the source denote.\<close>

lemma float_literal_values:
  "float_literal 20 1 = 2"
  "float_literal 40 1 = 4"
  "float_literal 50 1 = 5"
  "float_literal 33 1 = 3715469692580659 / 2 ^ 50"
  "float_literal 23 1 = 2589569785738035 / 2 ^ 50"
  "float_literal 26 1 = 5854679515581645 / 2 ^ 51"
  by code_simp+

lemma gueltige_noten_eq:
  "gueltige_noten =
     [float_literal 10 1, float_literal 13 1, float_literal 17 1, float_literal 20 1,
      float_literal 23 1, float_literal 27 1, float_literal 30 1, float_literal 33 1,
      float_literal 37 1, float_literal 40 1, float_literal 50 1]"
  by (simp add: gueltige_noten_def NOTEN_SKALA_def)

lemma passing_grades:
  "list_all (\<lambda>g. (g \<le> float_literal 40 1) = (g \<noteq> float_literal 50 1)) gueltige_noten"
  by code_simp

lemma grade_examples:
  "float_literal 15 1 \<notin> set gueltige_noten"
  "float_literal 60 1 \<notin> set gueltige_noten"
  "float_literal 13 1 \<le> float_literal 40 1"
  "float_literal 20 1 \<le> float_literal 40 1"
  "float_literal 40 1 \<le> float_literal 40 1"
  "\<not> float_literal 50 1 \<le> float_literal 40 1"
  by code_simp+

lemma graded_shape:
  "case graded_example of (res, st) \<Rightarrow> res = Inr 0
     \<and> note_attr (Pruefungsleistung_at st 0) = Some (float_literal 20 1)
     \<and> status (Pruefungsleistung_at st 0) = ''Bestanden''"
  using grade_examples
  by (simp add: graded_example_def cmd_defs note_setter_def gueltige_noten_eq
      IUBewertungsmassstab_ist_bestanden_def BESTANDEN_GRENZE_def)

lemma registry_shape:
  "case registry_example of (res, st) \<Rightarrow> res = Inr 0 \<and> next_ref st = 2
     \<and> users (DashboardController_at st 0) ''IU1'' = Some 1
     \<and> current_user (DashboardController_at st 0) = Some 1
     \<and> studiengaenge (User_at st 1) = []"
  by (simp add: registry_example_def cmd_defs)

lemma sample_shape:
  "case create_iu_medizinische_informatik_data (empty_state t) of
    (res, st) \<Rightarrow> res = Inr 0 \<and> current_user (DashboardController_at st 0) = Some 1
     \<and> studiengaenge (User_at st 1) = [2] \<and> semester (Studiengang_at st 2) = [3]
     \<and> ziel_note (Studiengang_at st 2) = float_literal 20 1
     \<and> ziel_dauer_semester (Studiengang_at st 2) = 8
     \<and> module (Semester_at st 3) = [4, 6, 8, 10, 12]
     \<and> map (\<lambda>m. ects (Modul_at st m)) [4, 6, 8, 10, 12] = [5, 5, 5, 5, 5]
     \<and> map (\<lambda>m. pruefungsleistungen (Modul_at st m)) [4, 6, 8, 10, 12]
         = [[5], [7], [9], [11], [13]]
     \<and> map (\<lambda>p. note_attr (Pruefungsleistung_at st p)) [5, 7, 9, 11, 13] =
         [Some (float_literal 20 1), Some (float_literal 33 1), Some (float_literal 20 1),
          Some (float_literal 20 1), None]"
  by (simp add: create_iu_medizinische_informatik_data_def cmd_defs)

lemma float_facts:
  "IUBewertungsmassstab_ist_bestanden (float_literal 20 1)"
  "IUBewertungsmassstab_ist_bestanden (float_literal 33 1)"
  "py_round1 (float_truediv (float_add 0 (float_literal 20 1)) (float_of_int 1)) = float_literal 20 1"
  "py_round1 (float_truediv (float_add 0 (float_literal 33 1)) (float_of_int 1)) = float_literal 33 1"
  by code_simp+

lemma sample_sum:
  "gewichtete_note
     (float_add (float_add (float_add
        (float_add 0 (float_mul (float_literal 20 1) (float_of_int 5)))
        (float_mul (float_literal 33 1) (float_of_int 5)))
        (float_mul (float_literal 20 1) (float_of_int 5)))
        (float_mul (float_literal 20 1) (float_of_int 5)), 20) = Some (float_literal 23 1)"
  by code_simp

lemma sample_cmp: "\<not> float_literal 23 1 \<le> float_literal 20 1"
  by code_simp

lemma term_sum:
  "weighted_average_spec [(float_literal 20 1, 5), (float_literal 33 1, 5)] = Some (float_literal 26 1)"
  "float_literal 26 1 \<noteq> float_literal 27 1"
  by code_simp+

lemma term_shape:
  "case term_example of (res, st) \<Rightarrow> res = Inr 0
     \<and> module (Semester_at st 0) = [1, 3]
     \<and> map (\<lambda>m. ects (Modul_at st m)) [1, 3] = [5, 5]
     \<and> map (\<lambda>m. pruefungsleistungen (Modul_at st m)) [1, 3] = [[2], [4]]
     \<and> map (\<lambda>p. note_attr (Pruefungsleistung_at st p)) [2, 4] =
         [Some (float_literal 20 1), Some (float_literal 33 1)]"
  by (simp add: term_example_def cmd_defs)

lemma module_loop_counted:
  "module_loop st ms (gs, ge) =
     (foldl float_add gs
        (map (\<lambda>(avg, credits). float_mul avg (float_of_int credits)) (counted_modules st ms)),
      ge + sum_list (map snd (counted_modules st ms)))"
proof (induction ms arbitrary: gs ge)
  case Nil
  then show ?case by (simp add: counted_modules_def List.map_filter_simps)
next
  case (Cons m ms)
  show ?case
  proof (cases "Modul_ist_bestanden st m")
    case False
    then show ?thesis using Cons.IH [of gs ge]
      by (simp add: counted_modules_def List.map_filter_simps)
  next
    case True
    show ?thesis
    proof (cases "get_durchschnittsnote st m")
      case None
      then show ?thesis using True Cons.IH [of gs ge]
        by (simp add: counted_modules_def List.map_filter_simps)
    next
      case (Some avg)
      then show ?thesis using True
          Cons.IH [of "float_add gs (float_mul avg (float_of_int (ects (Modul_at st m))))"
                      "ge + ects (Modul_at st m)"]
        by (simp add: counted_modules_def List.map_filter_simps)
    qed
  qed
qed

lemma counted_credits_positive:
  assumes "\<forall>m \<in> set ms. 0 < ects (Modul_at st m)"
  shows "\<forall>c \<in> set (map snd (counted_modules st ms)). 0 < c"
  using assms by (auto simp: counted_modules_def List.map_filter_def split: if_splits)

lemma sum_list_positive:
  fixes cs :: "int list"
  assumes "\<forall>c \<in> set cs. 0 < c" and "cs \<noteq> []"
  shows "0 < sum_list cs"
  using assms by (induction cs) (auto simp: add_pos_nonneg sum_list_nonneg less_imp_le)

lemma durchschnittsnote_guarded:
  "Semester_durchschnittsnote st r =
     (if 0 < sum_list (map snd (counted_modules st (module (Semester_at st r))))
      then weighted_average_spec (counted_modules st (module (Semester_at st r)))
      else None)"
  by (auto simp: Semester_durchschnittsnote_def module_loop_counted gewichtete_note_def
      weighted_average_spec_def float_sum_def)

lemma durchschnittsnote_refines:
  assumes "\<forall>m \<in> set (module (Semester_at st r)). 0 < ects (Modul_at st m)"
  shows "Semester_durchschnittsnote st r
       = weighted_average_spec (counted_modules st (module (Semester_at st r)))"
proof (cases "counted_modules st (module (Semester_at st r)) = []")
  case True
  then show ?thesis
    by (simp add: durchschnittsnote_guarded weighted_average_spec_def)
next
  case False
  then have "0 < sum_list (map snd (counted_modules st (module (Semester_at st r))))"
    using counted_credits_positive [OF assms] by (intro sum_list_positive) auto
  then show ?thesis
    by (simp add: durchschnittsnote_guarded)
qed

lemma term_example_counted:
  "fst term_example = Inr 0"
  "map (\<lambda>m. ects (Modul_at (snd term_example) m)) (module (Semester_at (snd term_example) 0)) = [5, 5]"
  "counted_modules (snd term_example) (module (Semester_at (snd term_example) 0))
     = [(float_literal 20 1, 5), (float_literal 33 1, 5)]"
  using term_shape float_facts
  by (simp_all add: case_prod_unfold counted_modules_def query_defs)

lemma term_example_value:
  "Semester_durchschnittsnote (snd term_example) 0 = Some (float_literal 26 1)"
  using term_sum(1) by (simp add: durchschnittsnote_guarded term_example_counted)

section \<open>The grading policy\<close>

text \<open>
  Claim C7. For every grade \<open>g\<close> of the permitted set, \<^verbatim>\<open>ist_bestanden(g)\<close> holds
  if and only if \<open>g \<le> 4.0\<close>, which on the permitted set is every grade but 5.0; in
  particular 4.0 passes and 5.0 does not.
\<close>

theorem ist_bestanden_threshold:
  assumes "g \<in> set gueltige_noten"
  shows "(IUBewertungsmassstab_ist_bestanden g \<longleftrightarrow> g \<le> float_literal 40 1)
       \<and> (IUBewertungsmassstab_ist_bestanden g \<longleftrightarrow> g \<noteq> float_literal 50 1)
       \<and> IUBewertungsmassstab_ist_bestanden (float_literal 40 1)
       \<and> \<not> IUBewertungsmassstab_ist_bestanden (float_literal 50 1)"
proof -
  have "(g \<le> float_literal 40 1) = (g \<noteq> float_literal 50 1)"
    using passing_grades assms by (simp add: list_all_iff)
  then show ?thesis
    using grade_examples by (simp add: IUBewertungsmassstab_ist_bestanden_def BESTANDEN_GRENZE_def)
qed

theorem ist_bestanden_threshold_witness:
  "float_literal 13 1 \<in> set gueltige_noten
   \<and> IUBewertungsmassstab_ist_bestanden (float_literal 13 1)"
proof -
  have h: "float_literal 13 1 \<in> set gueltige_noten"
    by (simp add: gueltige_noten_eq)
  from ist_bestanden_threshold [OF h] show ?thesis
    using h grade_examples by simp
qed

section \<open>The grade setter and the constructors\<close>

text \<open>
  Claim C2. For every Pruefungsleistung and every value \<open>v\<close> outside the permitted
  set 1.0, 1.3, 1.7, 2.0, 2.3, 2.7, 3.0, 3.3, 3.7, 4.0, 5.0, assigning \<open>v\<close> to
  \<^verbatim>\<open>note\<close> raises the ValueError of an invalid grade and leaves the state, hence the
  stored grade and status, as they were; assigning \<^verbatim>\<open>None\<close> clears the grade and
  sets the status to "Offen".
\<close>

theorem note_setter_rejects_invalid:
  assumes "v \<notin> {float_literal 10 1, float_literal 13 1, float_literal 17 1, float_literal 20 1,
      float_literal 23 1, float_literal 27 1, float_literal 30 1, float_literal 33 1,
      float_literal 37 1, float_literal 40 1, float_literal 50 1}"
  shows "fst (note_setter r (Some v) st) = Inl (ValueError_Ungueltige_Note v)
       \<and> snd (note_setter r (Some v) st) = st
       \<and> note_getter (snd (note_setter r (Some v) st)) r = note_getter st r
       \<and> status (Pruefungsleistung_at (snd (note_setter r (Some v) st)) r)
           = status (Pruefungsleistung_at st r)
       \<and> fst (note_setter r None st) = Inr ()
       \<and> note_getter (snd (note_setter r None st)) r = None
       \<and> status (Pruefungsleistung_at (snd (note_setter r None st)) r) = ''Offen''"
  using assms by (simp add: note_setter_def note_getter_def gueltige_noten_eq)

theorem note_setter_rejects_invalid_witness:
  "float_literal 15 1 \<notin> {float_literal 10 1, float_literal 13 1, float_literal 17 1,
      float_literal 20 1, float_literal 23 1, float_literal 27 1, float_literal 30 1,
      float_literal 33 1, float_literal 37 1, float_literal 40 1, float_literal 50 1}
   \<and> fst (note_setter 0 (Some (float_literal 15 1)) (snd graded_example))
        = Inl (ValueError_Ungueltige_Note (float_literal 15 1))
   \<and> note_getter (snd (note_setter 0 (Some (float_literal 15 1)) (snd graded_example))) 0
        = Some (float_literal 20 1)
   \<and> status (Pruefungsleistung_at
        (snd (note_setter 0 (Some (float_literal 15 1)) (snd graded_example))) 0) = ''Bestanden''"
proof -
  have h: "float_literal 15 1 \<notin> {float_literal 10 1, float_literal 13 1, float_literal 17 1,
      float_literal 20 1, float_literal 23 1, float_literal 27 1, float_literal 30 1,
      float_literal 33 1, float_literal 37 1, float_literal 40 1, float_literal 50 1}"
    using grade_examples(1) by (simp add: gueltige_noten_eq)
  have g: "note_attr (Pruefungsleistung_at (snd graded_example) 0) = Some (float_literal 20 1)"
    "status (Pruefungsleistung_at (snd graded_example) 0) = ''Bestanden''"
    using graded_shape by (simp_all add: case_prod_unfold)
  from note_setter_rejects_invalid [OF h, of 0 "snd graded_example"] show ?thesis
    using h g by (simp add: note_getter_def)
qed

text \<open>
  Claim C9. A Pruefungsleistung constructed with an initial grade \<open>v\<close> stores \<open>v\<close>
  as it is, whether or not it is a permitted grade: the construction never raises the
  ValueError of the setter, it succeeds whenever only the grade is passed, and the status
  of the new object is "Offen", not "Bestanden" or "Nicht bestanden".
\<close>

theorem constructor_keeps_unvalidated_note:
  assumes "kw_note kw = Some v"
  shows "(\<forall>p. fst (create_pruefungsleistung c kind kw st) = Inr p \<longrightarrow>
            note_getter (snd (create_pruefungsleistung c kind kw st)) p = Some v
          \<and> status (Pruefungsleistung_at (snd (create_pruefungsleistung c kind kw st)) p)
              = ''Offen'')
       \<and> (\<forall>w. fst (create_pruefungsleistung c kind kw st) \<noteq> Inl (ValueError_Ungueltige_Note w))
       \<and> fst (create_pruefungsleistung c kind (no_kwargs\<lparr>kw_note := Some v\<rparr>) st)
           = Inr (next_ref st)"
  using assms
  by (cases kind)
     (simp_all add: create_pruefungsleistung_def Klausur_init_def AdvancedWorkbook_init_def
       Portfolio_init_def new_Pruefungsleistung_def Pruefungsleistung_init_def note_getter_def
       no_kwargs_def)

theorem constructor_keeps_unvalidated_note_witness:
  "kw_note (no_kwargs\<lparr>kw_note := Some (float_literal 60 1)\<rparr>) = Some (float_literal 60 1)
   \<and> float_literal 60 1 \<notin> set gueltige_noten
   \<and> fst (create_pruefungsleistung 0 KLAUSUR (no_kwargs\<lparr>kw_note := Some (float_literal 60 1)\<rparr>)
        (empty_state 0)) = Inr 0
   \<and> note_getter (snd (create_pruefungsleistung 0 KLAUSUR
        (no_kwargs\<lparr>kw_note := Some (float_literal 60 1)\<rparr>) (empty_state 0))) 0
       = Some (float_literal 60 1)
   \<and> status (Pruefungsleistung_at (snd (create_pruefungsleistung 0 KLAUSUR
        (no_kwargs\<lparr>kw_note := Some (float_literal 60 1)\<rparr>) (empty_state 0))) 0) = ''Offen''"
proof -
  have h: "kw_note (no_kwargs\<lparr>kw_note := Some (float_literal 60 1)\<rparr>) = Some (float_literal 60 1)"
    by simp
  have n: "next_ref (empty_state 0) = 0"
    by (simp add: empty_state_def)
  from constructor_keeps_unvalidated_note [OF h, of 0 KLAUSUR "empty_state 0"] show ?thesis
    using h n grade_examples(2) by simp
qed

section \<open>Modul\<close>

text \<open>
  Claim C6. A Modul whose list of Pruefungsleistungen is empty is not passed, has the
  status NICHT_BEGONNEN, has earned 0 credits and has no average grade.
\<close>

theorem empty_modul:
  assumes "pruefungsleistungen (Modul_at st r) = []"
  shows "\<not> Modul_ist_bestanden st r \<and> get_status st r = NICHT_BEGONNEN
       \<and> Modul_erreichte_ects st r = 0 \<and> get_durchschnittsnote st r = None"
  using assms
  by (simp add: Modul_ist_bestanden_def get_status_def Modul_erreichte_ects_def
      get_durchschnittsnote_def List.map_filter_simps)

theorem empty_modul_witness:
  "pruefungsleistungen (Modul_at (snd (Modul_init ''M'' 5 True (empty_state 0))) 0) = []
   \<and> Modul_erreichte_ects (snd (Modul_init ''M'' 5 True (empty_state 0))) 0 = 0
   \<and> get_status (snd (Modul_init ''M'' 5 True (empty_state 0))) 0 = NICHT_BEGONNEN"
proof -
  have h: "pruefungsleistungen (Modul_at (snd (Modul_init ''M'' 5 True (empty_state 0))) 0) = []"
    by (simp add: Modul_init_def empty_state_def)
  from empty_modul [OF h] show ?thesis
    using h by simp
qed

section \<open>Semester\<close>

text \<open>
  Claim C4, as the specification states it: a Semester whose end date precedes its start
  date is rejected. The constructor has no such check: it returns the new Semester for
  the dates 2025-06-30 and 2025-01-01, and the end date stored is before the start date.
\<close>

theorem semester_dates_unchecked_counterexample:
  "fst (Semester_init 1 (date 2025 6 30) (date 2025 1 1) (empty_state 0)) = Inr 0
   \<and> date_less
       (enddatum (Semester_at
          (snd (Semester_init 1 (date 2025 6 30) (date 2025 1 1) (empty_state 0))) 0))
       (startdatum (Semester_at
          (snd (Semester_init 1 (date 2025 6 30) (date 2025 1 1) (empty_state 0))) 0))"
  by (simp add: Semester_init_def empty_state_def date_less_def)

text \<open>
  Claim C4, amended. Constructing a Semester never fails, whatever the order of the two
  dates: the new Semester has the number, the start date and the end date that were
  passed, and no modules.
\<close>

theorem semester_init_stores_dates:
  "fst (Semester_init n s e st) = Inr (next_ref st)
   \<and> nummer (Semester_at (snd (Semester_init n s e st)) (next_ref st)) = n
   \<and> startdatum (Semester_at (snd (Semester_init n s e st)) (next_ref st)) = s
   \<and> enddatum (Semester_at (snd (Semester_init n s e st)) (next_ref st)) = e
   \<and> module (Semester_at (snd (Semester_init n s e st)) (next_ref st)) = []"
  by (simp add: Semester_init_def)

section \<open>DashboardController\<close>

text \<open>
  Claim C3, as the specification states it: \<^verbatim>\<open>create_user\<close> fails when the id is
  already in \<^verbatim>\<open>users\<close>. In the registry of the example the id IU1 belongs to the
  user at address 1; creating a user with that id again returns a new user, at address 2,
  and the entry of IU1 is now that user.
\<close>

theorem create_user_duplicate_counterexample:
  "users (DashboardController_at (snd registry_example) 0) ''IU1'' = Some 1
   \<and> fst (create_user 0 ''IU1'' ''Eve'' ''eve@example.org'' ''Student'' (snd registry_example))
       = Inr 2
   \<and> users (DashboardController_at
        (snd (create_user 0 ''IU1'' ''Eve'' ''eve@example.org'' ''Student'' (snd registry_example)))
        0) ''IU1'' = Some 2"
  using registry_shape
  by (simp add: case_prod_unfold create_user_def User_init_def and_then_def)

text \<open>
  Claim C3, amended. \<^verbatim>\<open>create_user\<close> with an id that is already in \<^verbatim>\<open>users\<close>
  does not fail: it returns a new user with the given id, name, e-mail and role, no
  Studiengang and the current time as its creation time; the entry of the id is replaced
  by the new user and every other entry of \<^verbatim>\<open>users\<close> is kept;
  \<^verbatim>\<open>current_user\<close> stays what it was, and every object that existed before,
  the user that had the id among them, is left as it was.
\<close>

theorem create_user_overwrites:
  assumes "users (DashboardController_at st c) uid = Some old"
    and "st' = snd (create_user c uid name mail role st)"
  shows "fst (create_user c uid name mail role st) = Inr (next_ref st)
       \<and> User_at st' (next_ref st)
           = \<lparr>user_id = uid, user_name = name, email = mail, rolle = role,
              studiengaenge = [], erstellt_am = now st\<rparr>
       \<and> users (DashboardController_at st' c)
           = (users (DashboardController_at st c))(uid \<mapsto> next_ref st)
       \<and> current_user (DashboardController_at st' c)
           = current_user (DashboardController_at st c)
       \<and> (\<forall>r. r \<noteq> next_ref st \<longrightarrow> User_at st' r = User_at st r)
       \<and> (\<forall>d. d \<noteq> c \<longrightarrow> DashboardController_at st' d = DashboardController_at st d)
       \<and> Pruefungsleistung_at st' = Pruefungsleistung_at st
       \<and> Modul_at st' = Modul_at st
       \<and> Semester_at st' = Semester_at st
       \<and> Studiengang_at st' = Studiengang_at st
       \<and> next_ref st' = Suc (next_ref st)
       \<and> now st' = now st"
  using assms(2) by (simp add: create_user_def User_init_def and_then_def)

theorem create_user_overwrites_witness:
  "users (DashboardController_at (snd registry_example) 0) ''IU1'' = Some 1
   \<and> next_ref (snd registry_example) = 2
   \<and> fst (create_user 0 ''IU1'' ''Eve'' ''eve@example.org'' ''Student'' (snd registry_example))
       = Inr 2
   \<and> User_at
        (snd (create_user 0 ''IU1'' ''Eve'' ''eve@example.org'' ''Student'' (snd registry_example)))
        2
       = \<lparr>user_id = ''IU1'', user_name = ''Eve'', email = ''eve@example.org'',
          rolle = ''Student'', studiengaenge = [], erstellt_am = 0\<rparr>
   \<and> User_at
        (snd (create_user 0 ''IU1'' ''Eve'' ''eve@example.org'' ''Student'' (snd registry_example)))
        1
       = \<lparr>user_id = ''IU1'', user_name = ''Ada'', email = ''ada@example.org'',
          rolle = ''Student'', studiengaenge = [], erstellt_am = 0\<rparr>
   \<and> users (DashboardController_at
        (snd (create_user 0 ''IU1'' ''Eve'' ''eve@example.org'' ''Student'' (snd registry_example)))
        0) ''IU1'' = Some 2
   \<and> current_user (DashboardController_at
        (snd (create_user 0 ''IU1'' ''Eve'' ''eve@example.org'' ''Student'' (snd registry_example)))
        0) = Some 1"
proof -
  have h: "users (DashboardController_at (snd registry_example) 0) ''IU1'' = Some 1"
    and n: "next_ref (snd registry_example) = 2"
    and u: "current_user (DashboardController_at (snd registry_example) 0) = Some 1"
    using registry_shape by (simp_all add: case_prod_unfold)
  have a: "User_at (snd registry_example) 1
      = \<lparr>user_id = ''IU1'', user_name = ''Ada'', email = ''ada@example.org'',
         rolle = ''Student'', studiengaenge = [], erstellt_am = 0\<rparr>"
    and t: "now (snd registry_example) = 0"
    by (simp_all add: registry_example_def cmd_defs)
  from create_user_overwrites
    [OF h refl, of "''Eve''" "''eve@example.org''" "''Student''"]
  show ?thesis
    using h n u a t by simp
qed

text \<open>
  Claim C10. \<^verbatim>\<open>get_dashboard_data\<close> returns \<^verbatim>\<open>None\<close> exactly when there is no
  current user. With a current user who owns no Studiengang it returns the dictionary
  whose only entry is the error message.
\<close>

theorem dashboard_without_studiengang:
  "(get_dashboard_data st c = None \<longleftrightarrow> current_user (DashboardController_at st c) = None)
   \<and> (\<forall>user. current_user (DashboardController_at st c) = Some user
          \<and> studiengaenge (User_at st user) = [] \<longrightarrow>
        get_dashboard_data st c = Some (PyDict [(''error'', PyStr ''Kein Studiengang gefunden'')]))"
  by (simp add: get_dashboard_data_def zeige_dashboard_def get_aktueller_studiengang_def
      split: option.splits)

theorem dashboard_without_studiengang_witness:
  "current_user (DashboardController_at (snd registry_example) 0) = Some 1
   \<and> studiengaenge (User_at (snd registry_example) 1) = []
   \<and> get_dashboard_data (snd registry_example) 0
       = Some (PyDict [(''error'', PyStr ''Kein Studiengang gefunden'')])"
proof -
  have h: "current_user (DashboardController_at (snd registry_example) 0) = Some 1
      \<and> studiengaenge (User_at (snd registry_example) 1) = []"
    using registry_shape by (simp add: case_prod_unfold)
  from dashboard_without_studiengang [of "snd registry_example" 0] show ?thesis
    using h by blast
qed

text \<open>
  Claim C8. When there is a current user who owns at least one Studiengang, the entry
  \<^verbatim>\<open>fortschritt\<close> of the dashboard data holds the earned credits, the overall grade,
  the on-schedule flag and the goal flag that the four methods return on the last
  Studiengang of that user.
\<close>

theorem dashboard_progress_matches:
  assumes "current_user (DashboardController_at st c) = Some user"
    and "studiengaenge (User_at st user) \<noteq> []"
    and "sg = last (studiengaenge (User_at st user))"
  shows "\<exists>entries fortschritt.
      get_dashboard_data st c = Some (PyDict entries)
    \<and> map_of entries ''fortschritt'' = Some (PyDict fortschritt)
    \<and> map_of fortschritt ''gesamt_ects'' = Some (PyInt (berechne_gesamt_ects st sg))
    \<and> map_of fortschritt ''gesamtnote''
        = Some (case berechne_gesamtnote st sg of None \<Rightarrow> PyNone | Some x \<Rightarrow> PyFloat x)
    \<and> map_of fortschritt ''im_zeitplan'' = Some (PyBool (ist_im_zeitplan st sg))
    \<and> map_of fortschritt ''ziel_erreicht'' = Some (PyBool (ziel_erreicht st sg))"
  using assms
  by (simp add: get_dashboard_data_def zeige_dashboard_def get_aktueller_studiengang_def)

theorem dashboard_progress_matches_witness:
  "current_user (DashboardController_at sample_state 0) = Some 1
   \<and> studiengaenge (User_at sample_state 1) = [2]
   \<and> (\<exists>entries fortschritt.
        get_dashboard_data sample_state 0 = Some (PyDict entries)
      \<and> map_of entries ''fortschritt'' = Some (PyDict fortschritt)
      \<and> map_of fortschritt ''gesamt_ects''
          = Some (PyInt (berechne_gesamt_ects sample_state 2)))"
proof -
  have h: "current_user (DashboardController_at sample_state 0) = Some 1"
    and p: "studiengaenge (User_at sample_state 1) = [2]"
    using sample_shape [of 0] by (simp_all add: case_prod_unfold sample_state_def)
  from p have q: "studiengaenge (User_at sample_state 1) \<noteq> []"
    and l: "2 = last (studiengaenge (User_at sample_state 1))"
    by simp_all
  from dashboard_progress_matches [OF h q l] show ?thesis
    using h p by blast
qed

section \<open>The weighted average of a Semester\<close>

text \<open>
  Claim C5, as the specification states it: for two passed modules with 5 credits each
  and the averages 2.0 and 3.3 the weighted average is 2.7. The quotient
  \<^verbatim>\<open>26.5 / 10\<close> is the float nearest to 2.65, which is below 2.65, and
  \<^verbatim>\<open>round\<close> takes it to 2.6.
\<close>

theorem durchschnittsnote_rounding_counterexample:
  "fst term_example = Inr 0
   \<and> counted_modules (snd term_example) (module (Semester_at (snd term_example) 0))
       = [(float_literal 20 1, 5), (float_literal 33 1, 5)]
   \<and> Semester_durchschnittsnote (snd term_example) 0 \<noteq> Some (float_literal 27 1)"
  using term_sum(2) by (simp add: term_example_counted term_example_value)

text \<open>
  Claim C5, amended. For every Semester whose modules have positive credits,
  \<^verbatim>\<open>durchschnittsnote\<close> is the sum of average times credits over the passed modules
  with an average, divided by the sum of the credits of the same modules and rounded to
  one decimal by \<^verbatim>\<open>round\<close>, and \<^verbatim>\<open>None\<close> when there is no such module; for
  two passed modules with 5 credits each and the averages 2.0 and 3.3 it is 2.6.
  (Whatever the credits are, the guard of the source gives \<^verbatim>\<open>None\<close> when the sum
  of the credits is not positive, and the rounded quotient otherwise.)
\<close>

theorem durchschnittsnote_weighted_average:
  "Semester_durchschnittsnote st r
     = (if 0 < sum_list (map snd (counted_modules st (module (Semester_at st r))))
        then weighted_average_spec (counted_modules st (module (Semester_at st r)))
        else None)
   \<and> ((\<forall>m \<in> set (module (Semester_at st r)). 0 < ects (Modul_at st m)) \<longrightarrow>
        Semester_durchschnittsnote st r
          = weighted_average_spec (counted_modules st (module (Semester_at st r))))
   \<and> (counted_modules st (module (Semester_at st r)) = [] \<longrightarrow>
        Semester_durchschnittsnote st r = None)
   \<and> counted_modules (snd term_example) (module (Semester_at (snd term_example) 0))
       = [(float_literal 20 1, 5), (float_literal 33 1, 5)]
   \<and> Semester_durchschnittsnote (snd term_example) 0 = Some (float_literal 26 1)"
proof -
  have "Semester_durchschnittsnote st r
      = weighted_average_spec (counted_modules st (module (Semester_at st r)))"
    if "\<forall>m \<in> set (module (Semester_at st r)). 0 < ects (Modul_at st m)"
    using that by (rule durchschnittsnote_refines)
  moreover have "Semester_durchschnittsnote st r = None"
    if "counted_modules st (module (Semester_at st r)) = []"
    using that by (simp add: durchschnittsnote_guarded)
  ultimately show ?thesis
    using durchschnittsnote_guarded [of st r] term_example_counted(3) term_example_value
    by blast
qed

theorem durchschnittsnote_weighted_average_witness:
  "map (\<lambda>m. ects (Modul_at (snd term_example) m))
     (module (Semester_at (snd term_example) 0)) = [5, 5]
   \<and> Semester_durchschnittsnote (snd term_example) 0
       = weighted_average_spec
           (counted_modules (snd term_example) (module (Semester_at (snd term_example) 0)))
   \<and> weighted_average_spec
         (counted_modules (snd term_example) (module (Semester_at (snd term_example) 0)))
       = Some (float_literal 26 1)"
proof -
  have e: "map (\<lambda>m. ects (Modul_at (snd term_example) m))
      (module (Semester_at (snd term_example) 0)) = [5, 5]"
    by (rule term_example_counted)
  have h: "\<forall>m \<in> set (module (Semester_at (snd term_example) 0)).
      0 < ects (Modul_at (snd term_example) m)"
  proof
    fix m assume "m \<in> set (module (Semester_at (snd term_example) 0))"
    then have "ects (Modul_at (snd term_example) m)
        \<in> set (map (\<lambda>m. ects (Modul_at (snd term_example) m))
            (module (Semester_at (snd term_example) 0)))"
      by simp
    then show "0 < ects (Modul_at (snd term_example) m)"
      unfolding e by auto
  qed
  from durchschnittsnote_weighted_average [of "snd term_example" 0] h
  have "Semester_durchschnittsnote (snd term_example) 0
      = weighted_average_spec
          (counted_modules (snd term_example) (module (Semester_at (snd term_example) 0)))"
    and "Semester_durchschnittsnote (snd term_example) 0 = Some (float_literal 26 1)"
    by blast+
  then show ?thesis
    using e by simp
qed

section \<open>The sample data\<close>

text \<open>
  Claim C1. For the sample data (one Semester, five modules of 5 credits, four of them
  graded 2.0, 3.3, 2.0 and 2.0, the fifth with an ungraded Portfolio, target grade 2.0 and
  target duration 8) the Studiengang of the current user has 20 earned credits and the
  overall grade 2.3, is on schedule and has not met its goal.
\<close>

theorem sample_data_progress:
  "\<exists>controller st user studiengang.
      create_iu_medizinische_informatik_data (empty_state t) = (Inr controller, st) \<and>
      current_user (DashboardController_at st controller) = Some user \<and>
      get_aktueller_studiengang st user = Some studiengang \<and>
      berechne_gesamt_ects st studiengang = 20 \<and>
      berechne_gesamtnote st studiengang = Some (float_literal 23 1) \<and>
      ist_im_zeitplan st studiengang \<and> \<not> ziel_erreicht st studiengang"
proof -
  obtain res st where run: "create_iu_medizinische_informatik_data (empty_state t) = (res, st)"
    by (cases "create_iu_medizinische_informatik_data (empty_state t)")
  from sample_shape [of t] run have shape:
    "res = Inr 0" "current_user (DashboardController_at st 0) = Some 1"
    "studiengaenge (User_at st 1) = [2]" "semester (Studiengang_at st 2) = [3]"
    "ziel_note (Studiengang_at st 2) = float_literal 20 1"
    "ziel_dauer_semester (Studiengang_at st 2) = 8"
    "module (Semester_at st 3) = [4, 6, 8, 10, 12]"
    "map (\<lambda>m. ects (Modul_at st m)) [4, 6, 8, 10, 12] = [5, 5, 5, 5, 5]"
    "map (\<lambda>m. pruefungsleistungen (Modul_at st m)) [4, 6, 8, 10, 12]
       = [[5], [7], [9], [11], [13]]"
    "map (\<lambda>p. note_attr (Pruefungsleistung_at st p)) [5, 7, 9, 11, 13] =
       [Some (float_literal 20 1), Some (float_literal 33 1), Some (float_literal 20 1),
        Some (float_literal 20 1), None]"
    by simp_all
  have "get_aktueller_studiengang st 1 = Some 2"
    using shape by (simp add: get_aktueller_studiengang_def)
  moreover have "berechne_gesamt_ects st 2 = 20"
    using shape float_facts by (simp add: query_defs)
  moreover have "berechne_gesamtnote st 2 = Some (float_literal 23 1)"
    using shape float_facts sample_sum by (simp add: query_defs)
  moreover have "ist_im_zeitplan st 2"
    using shape by (simp add: ist_im_zeitplan_def)
  ultimately show ?thesis
    using run shape sample_cmp by (simp add: ziel_erreicht_def)
qed

end
